theory Spec2Isabelle
  imports Complex_Main "HOL-Library.Sublist"
begin

section \<open>Python values\<close>

text \<open>
  Python floats are modelled as exact reals: the theory speaks about the arithmetic the
  code writes down (\<open>0.8 ** attempt\<close>, \<open>percent / 100\<close>), not about binary rounding.
  \<open>int(x)\<close> truncates towards zero.
\<close>

definition py_int :: "real \<Rightarrow> int" where
  "py_int x = (if 0 \<le> x then \<lfloor>x\<rfloor> else \<lceil>x\<rceil>)"

text \<open>
  Strings are lists of characters. \<open>str.lower()\<close> is modelled on the ASCII letters,
  \<open>p in s\<close> is the substring test.
\<close>

definition char_lower :: "char \<Rightarrow> char" where
  "char_lower c =
     (case map_of (zip ''ABCDEFGHIJKLMNOPQRSTUVWXYZ'' ''abcdefghijklmnopqrstuvwxyz'') c of
        Some d \<Rightarrow> d
      | None \<Rightarrow> c)"

definition str_lower :: "string \<Rightarrow> string" where
  "str_lower s = map char_lower s"

fun py_in :: "string \<Rightarrow> string \<Rightarrow> bool" where
  "py_in p [] = (p = [])"
| "py_in p (c # s) = (take (length p) (c # s) = p \<or> py_in p s)"

text \<open>\<open>any(w in reason.lower() for reason in failure_reasons)\<close>\<close>

definition any_mentions :: "string \<Rightarrow> string list \<Rightarrow> bool" where
  "any_mentions w reasons = list_ex (\<lambda>reason. py_in w (str_lower reason)) reasons"

subsection \<open>Exceptions\<close>

text \<open>
  The handlers of the trading code tell the three web3 exceptions from every other
  exception; \<open>str(e)\<close> is the message.
\<close>

datatype exn_kind = TimeExhausted | BadFunctionCallOutput | TransactionNotFound
  | TypeError | ZeroDivisionError | OtherError

type_synonym exn = "exn_kind \<times> string"

definition is_web3_exn :: "exn \<Rightarrow> bool" where
  "is_web3_exn e = (fst e = TimeExhausted \<or> fst e = BadFunctionCallOutput \<or> fst e = TransactionNotFound)"

section \<open>config.py\<close>

record config =
  MIN_LIQUIDITY :: real
  SLIPPAGE :: real
  GAS_MULTIPLIER :: real
  TAKE_PROFIT_PERCENTAGE :: real
  STOP_LOSS_PERCENTAGE :: real
  MIN_SUCCESSFUL_SELLS :: int
  HONEYPOT_CHECK_ENABLED :: bool
  ASSEMBLY_CHECK_ENABLED :: bool
  BSCSCAN_API_KEY :: string
  WBNB_ADDRESS :: string

definition BLACKLISTED_PATTERNS :: "string list" where
  "BLACKLISTED_PATTERNS =
     [''test'', ''scam'', ''fake'', ''honey'', ''pot'', ''honeypot'', ''rug'', ''pull'', ''rugpull'',
      ''moon'', ''safe'', ''gem'', ''100x'', ''1000x'', ''fair'', ''presale'', ''pre-sale'', ''ico'']"

text \<open>The defaults of config.py, used for the concrete evaluations below.\<close>

definition default_config :: config where
  "default_config =
     \<lparr> MIN_LIQUIDITY = 5, SLIPPAGE = 10, GAS_MULTIPLIER = 12 / 10,
       TAKE_PROFIT_PERCENTAGE = 20, STOP_LOSS_PERCENTAGE = 10, MIN_SUCCESSFUL_SELLS = 3,
       HONEYPOT_CHECK_ENABLED = True, ASSEMBLY_CHECK_ENABLED = True, BSCSCAN_API_KEY = '''',
       WBNB_ADDRESS = ''0xbb4CdB9CBd36B01bD1cBaEBF2De08d9173bc095c'' \<rparr>"

section \<open>database/operations.py\<close>

text \<open>
  The sqlite database is a record of its tables. Every operation of the module opens a
  connection, returns its failure value when there is none (or when sqlite raises) and
  leaves the tables as they were; \<open>db_conn\<close> says whether the database answers.
\<close>

record portfolio_row =
  p_id :: nat
  p_token_address :: string
  p_token_symbol :: string
  p_amount_tokens :: real
  p_purchase_price_bnb :: real
  p_investment_amount_bnb :: real
  p_take_profit_target :: real
  p_stop_loss_target :: real
  p_status :: string

record transaction_row =
  t_token_address :: string
  t_token_symbol :: string
  t_transaction_type :: string
  t_amount_tokens :: real
  t_amount_bnb :: real
  t_transaction_hash :: string
  t_profit_loss_bnb :: "real option"

record failed_row =
  f_token_address :: string
  f_token_symbol :: string
  f_transaction_type :: string
  f_amount :: "real option"
  f_tx_hash :: "string option"
  f_error_reason :: string

record sell_schedule_entry =
  q_token_address :: string
  q_token_symbol :: string
  q_token_decimals :: nat
  q_amount :: real
  q_scheduled_time :: real

record store =
  db_conn :: bool
  blacklisted_tokens :: "string \<rightharpoonup> string \<times> string"
  portfolio :: "portfolio_row list"
  transactions :: "transaction_row list"
  failed_transactions :: "failed_row list"
  has_add_to_sell_queue :: bool
  sell_queue :: "sell_schedule_entry list"

definition record_failed_transaction ::
  "store \<Rightarrow> string \<Rightarrow> string \<Rightarrow> string \<Rightarrow> real option \<Rightarrow> string option \<Rightarrow> string \<Rightarrow> bool \<times> store" where
  "record_failed_transaction db token_address token_symbol transaction_type amount tx_hash error_reason =
     (if \<not> db_conn db then (False, db)
      else (True, db\<lparr>failed_transactions := failed_transactions db @
              [\<lparr> f_token_address = token_address, f_token_symbol = token_symbol,
                 f_transaction_type = transaction_type, f_amount = amount,
                 f_tx_hash = tx_hash, f_error_reason = error_reason \<rparr>]\<rparr>))"

definition is_token_blacklisted :: "store \<Rightarrow> string \<Rightarrow> bool" where
  "is_token_blacklisted db token_address =
     (if \<not> db_conn db then False else blacklisted_tokens db token_address \<noteq> None)"

text \<open>\<open>INSERT OR REPLACE\<close> on the primary key \<open>token_address\<close>.\<close>

definition add_to_blacklist :: "store \<Rightarrow> string \<Rightarrow> string \<Rightarrow> string \<Rightarrow> bool \<times> store" where
  "add_to_blacklist db token_address token_symbol reason =
     (if \<not> db_conn db then (False, db)
      else (True, db\<lparr>blacklisted_tokens :=
              (blacklisted_tokens db)(token_address \<mapsto> (token_symbol, reason))\<rparr>))"

text \<open>\<open>AUTOINCREMENT\<close>: the new id is above every id of the table; the status column defaults to active.\<close>

definition next_id :: "portfolio_row list \<Rightarrow> nat" where
  "next_id rows = Suc (fold max (map p_id rows) 0)"

definition add_to_portfolio ::
  "store \<Rightarrow> string \<Rightarrow> string \<Rightarrow> real \<Rightarrow> real \<Rightarrow> real \<Rightarrow> real \<Rightarrow> real \<Rightarrow> nat option \<times> store" where
  "add_to_portfolio db token_address token_symbol amount_tokens purchase_price_bnb
       investment_amount_bnb take_profit stop_loss =
     (if \<not> db_conn db then (None, db)
      else (let portfolio_id = next_id (portfolio db) in
        (Some portfolio_id, db\<lparr>portfolio := portfolio db @
              [\<lparr> p_id = portfolio_id, p_token_address = token_address,
                 p_token_symbol = token_symbol, p_amount_tokens = amount_tokens,
                 p_purchase_price_bnb = purchase_price_bnb,
                 p_investment_amount_bnb = investment_amount_bnb,
                 p_take_profit_target = take_profit, p_stop_loss_target = stop_loss,
                 p_status = ''active'' \<rparr>]\<rparr>)))"

text \<open>\<open>UPDATE portfolio SET status = ? WHERE id = ?\<close>\<close>

definition update_portfolio_status :: "store \<Rightarrow> nat \<Rightarrow> string \<Rightarrow> bool \<times> store" where
  "update_portfolio_status db portfolio_id status =
     (if \<not> db_conn db then (False, db)
      else (True, db\<lparr>portfolio :=
              map (\<lambda>r. if p_id r = portfolio_id then r\<lparr>p_status := status\<rparr> else r) (portfolio db)\<rparr>))"

text \<open>\<open>SELECT ... FROM portfolio WHERE status = 'active'\<close>\<close>

definition get_active_portfolio :: "store \<Rightarrow> portfolio_row list" where
  "get_active_portfolio db =
     (if \<not> db_conn db then [] else filter (\<lambda>r. p_status r = ''active'') (portfolio db))"

definition record_transaction ::
  "store \<Rightarrow> string \<Rightarrow> string \<Rightarrow> string \<Rightarrow> real \<Rightarrow> real \<Rightarrow> string \<Rightarrow> real option \<Rightarrow> nat option \<times> store" where
  "record_transaction db token_address token_symbol transaction_type amount_tokens amount_bnb
       transaction_hash profit_loss_bnb =
     (if \<not> db_conn db then (None, db)
      else (Some (Suc (length (transactions db))), db\<lparr>transactions := transactions db @
              [\<lparr> t_token_address = token_address, t_token_symbol = token_symbol,
                 t_transaction_type = transaction_type, t_amount_tokens = amount_tokens,
                 t_amount_bnb = amount_bnb, t_transaction_hash = transaction_hash,
                 t_profit_loss_bnb = profit_loss_bnb \<rparr>]\<rparr>))"

text \<open>
  Modelled from the spec: \<open>add_to_sell_queue\<close> is imported from database.operations by
  trading/sell.py, and the module does not define it. The specification names the
  operation of the persistence store (\<open>insertSellScheduleEntry\<close>, which persists one
  SellScheduleEntry \<open>{tokenAddress, symbol, decimals, amount, scheduledTime}\<close>): it
  appends the entry to the sell queue. \<open>has_add_to_sell_queue\<close> says whether the import
  finds the function; sell.py handles the \<open>ImportError\<close> of the other case.
\<close>

definition add_to_sell_queue :: "store \<Rightarrow> string \<Rightarrow> string \<Rightarrow> nat \<Rightarrow> real \<Rightarrow> real \<Rightarrow> store" where
  "add_to_sell_queue db token_address token_symbol token_decimals sell_amount scheduled_time =
     db\<lparr>sell_queue := sell_queue db @
          [\<lparr> q_token_address = token_address, q_token_symbol = token_symbol,
             q_token_decimals = token_decimals, q_amount = sell_amount,
             q_scheduled_time = scheduled_time \<rparr>]\<rparr>"

section \<open>trading/sell.py\<close>

subsection \<open>What the chain answers\<close>

text \<open>
  Every call to the chain client either raises or returns. One \<open>sell_chain\<close> holds the
  answers of one attempt of \<open>execute_sell\<close>, in the order of the calls:
  \<^item> \<open>ch_setup\<close>: \<open>Web3Singleton.get_instance()\<close>, \<open>get_router_contract()\<close> and
    \<open>get_token_contract\<close>, whose result is truthy or not;
  \<^item> \<open>ch_balanceOf\<close>, \<open>ch_allowance\<close>: the two reads of the token contract;
  \<^item> \<open>ch_approve_send\<close>: nonce, gas price, build, sign and send of the approval, giving
    the hash; \<open>ch_approve_receipt\<close>: the status of its receipt;
  \<^item> \<open>ch_getAmountsOut\<close>: the quote of the router, by attempt of
    \<open>estimate_bnb_output\<close> and amount in wei, giving \<open>amount_out[1]\<close>;
  \<^item> \<open>ch_gas_price\<close>: \<open>w3.eth.gas_price\<close>; \<open>ch_time\<close>: \<open>time.time()\<close>;
  \<^item> \<open>ch_send\<close>: nonce, build, sign and send of the swap, giving the hash;
  \<^item> \<open>ch_receipt\<close>: \<open>wait_for_transaction_receipt\<close>;
  \<^item> \<open>ch_replay\<close>, \<open>ch_approve_replay\<close>: the replay of \<open>decode_revert_reason\<close>.
\<close>

datatype replay = GetTransactionRaises | CallReturns | CallRaises string

record sell_receipt =
  rc_status :: nat
  rc_gasUsed :: "nat option"

record sell_chain =
  ch_setup :: "exn + bool"
  ch_balanceOf :: "exn + nat"
  ch_allowance :: "exn + nat"
  ch_approve_send :: "exn + string"
  ch_approve_receipt :: "exn + nat"
  ch_approve_replay :: replay
  ch_getAmountsOut :: "nat \<Rightarrow> int \<Rightarrow> exn + nat"
  ch_gas_price :: "exn + nat"
  ch_time :: real
  ch_send :: "exn + string"
  ch_receipt :: "exn + sell_receipt"
  ch_replay :: replay

record sell_env =
  se_chain :: "nat \<Rightarrow> sell_chain"
  se_now :: "nat \<Rightarrow> real"

subsection \<open>estimate_bnb_output\<close>

text \<open>
  The loop \<open>for attempt in range(max_retries)\<close>: the first quote that does not raise is
  returned as a float of BNB (\<open>from_wei(amount_out[1], 'ether')\<close>); when every attempt
  raises, the result is \<open>None\<close>.
\<close>

fun estimate_loop :: "(nat \<Rightarrow> int \<Rightarrow> exn + nat) \<Rightarrow> int \<Rightarrow> nat \<Rightarrow> nat \<Rightarrow> real option" where
  "estimate_loop quote token_amount_wei 0 attempt = None"
| "estimate_loop quote token_amount_wei (Suc k) attempt =
     (case quote attempt token_amount_wei of
        Inr amount_out \<Rightarrow> Some (real amount_out / 10 ^ 18)
      | Inl e \<Rightarrow> estimate_loop quote token_amount_wei k (Suc attempt))"

definition estimate_bnb_output :: "(nat \<Rightarrow> int \<Rightarrow> exn + nat) \<Rightarrow> real \<Rightarrow> nat \<Rightarrow> nat \<Rightarrow> real option" where
  "estimate_bnb_output quote token_amount token_decimals max_retries =
     estimate_loop quote (py_int (token_amount * 10 ^ token_decimals)) max_retries 0"

subsection \<open>decode_revert_reason\<close>

definition decode_revert_reason :: "replay \<Rightarrow> string" where
  "decode_revert_reason r =
     (case r of
        GetTransactionRaises \<Rightarrow> ''Could not decode''
      | CallReturns \<Rightarrow> ''Unknown reason''
      | CallRaises error_msg \<Rightarrow>
          if py_in ''revert'' (str_lower error_msg) then error_msg else ''Unknown reason'')"

subsection \<open>execute_sell\<close>

text \<open>
  The local variables that live across the attempts (\<open>failure_reasons\<close>,
  \<open>amount_tokens\<close>), the database, and the swaps handed to \<open>send_raw_transaction\<close>.
\<close>

record sell_tx =
  tx_amount_in :: int
  tx_min_bnb :: int
  tx_gas :: int
  tx_gasPrice :: int
  tx_deadline :: int

record sell_state =
  failure_reasons :: "string list"
  st_amount_tokens :: "real option"
  st_db :: store
  st_sent :: "sell_tx list"

record sell_call =
  sc_token_address :: string
  sc_token_symbol :: string
  sc_token_decimals :: nat
  sc_portfolio_id :: "nat option"
  sc_is_test :: bool

text \<open>
  The values \<open>execute_sell\<close> returns: \<open>None\<close>, and the dictionaries with status skipped,
  failed with one reason (and the hash of the approval), success, and failed with the
  list of reasons.
\<close>

datatype sell_outcome =
    SellNone
  | SellSkipped string
  | SellFailedReason string "string option"
  | SellSuccess string real real
  | SellFailed "string list" string string

text \<open>The escalation of one attempt, under the names of the local variables.\<close>

definition reduction_factor :: "nat \<Rightarrow> string list \<Rightarrow> real" where
  "reduction_factor attempt reasons =
     (if any_mentions ''gas'' reasons \<or> any_mentions ''exceed'' reasons
      then (1 / 2) ^ attempt else (4 / 5) ^ attempt)"

definition extra_slippage :: "nat \<Rightarrow> string list \<Rightarrow> real" where
  "extra_slippage attempt reasons =
     (let base_extra_slippage = min (10 * real attempt) 30 in
      if any_mentions ''price impact'' reasons \<or> any_mentions ''slippage'' reasons
      then min (base_extra_slippage + 15) 49 else base_extra_slippage)"

definition gas_multiplier :: "config \<Rightarrow> nat \<Rightarrow> string list \<Rightarrow> real" where
  "gas_multiplier cfg attempt reasons =
     (let gas_base_multiplier = 1 + (2 / 10) * real attempt in
      if any_mentions ''gas'' reasons
      then GAS_MULTIPLIER cfg * gas_base_multiplier * (15 / 10)
      else GAS_MULTIPLIER cfg * gas_base_multiplier)"

definition gas_limit_multiplier :: "nat \<Rightarrow> string list \<Rightarrow> real" where
  "gas_limit_multiplier attempt reasons =
     (if any_mentions ''gas'' reasons
      then 1 + (4 / 10) * real attempt else 1 + (2 / 10) * real attempt)"

text \<open>
  The two \<open>except\<close> clauses: both append \<open>str(e)\<close> and record the failed transaction;
  the clause of the web3 exceptions appends a tag for the known messages.
\<close>

definition sell_except :: "sell_call \<Rightarrow> exn \<Rightarrow> sell_state \<Rightarrow> sell_state" where
  "sell_except c e st =
     (let error_message = snd e;
          reasons = failure_reasons st @ [error_message];
          tagged =
            (if is_web3_exn e then
               (if py_in ''gas required exceeds allowance'' error_message
                  then reasons @ [''EXCEEDED_MAXIMUM'']
                else if py_in ''always failing transaction'' error_message
                  then reasons @ [''ALWAYS_FAILING'']
                else if py_in ''execution reverted'' error_message
                  then reasons @ [''EXECUTION_REVERTED'']
                else reasons)
             else reasons)
      in st\<lparr>failure_reasons := tagged,
            st_db := snd (record_failed_transaction (st_db st) (sc_token_address c) (sc_token_symbol c)
                            ''sell'' (st_amount_tokens st) None error_message)\<rparr>)"

text \<open>
  One attempt, in the order of the source. Each part returns the state and the value
  returned by \<open>execute_sell\<close>, or \<open>None\<close> when the loop goes on to the next attempt.
  \<open>sell_submit\<close> is the part from the slippage to the receipt.
\<close>

definition sell_submit ::
  "config \<Rightarrow> sell_call \<Rightarrow> sell_chain \<Rightarrow> nat \<Rightarrow> int \<Rightarrow> real \<Rightarrow> real \<Rightarrow> sell_state
     \<Rightarrow> sell_state \<times> sell_outcome option" where
  "sell_submit cfg c ch attempt amount_tokens_wei amount estimated_bnb st =
     (let effective_slippage = SLIPPAGE cfg + extra_slippage attempt (failure_reasons st);
          min_bnb = py_int (estimated_bnb * (100 - effective_slippage) / 100 * 10 ^ 18);
          gas_limit = 300000 * gas_limit_multiplier attempt (failure_reasons st)
      in case ch_gas_price ch of
           Inl e \<Rightarrow> (sell_except c e st, None)
         | Inr base_gas_price \<Rightarrow>
        (let gas_price = py_int (real base_gas_price * gas_multiplier cfg attempt (failure_reasons st));
             deadline = py_int (ch_time ch + 300 + 300 * real attempt);
             tx = \<lparr> tx_amount_in = amount_tokens_wei, tx_min_bnb = min_bnb,
                    tx_gas = py_int gas_limit, tx_gasPrice = gas_price, tx_deadline = deadline \<rparr>
         in case ch_send ch of
              Inl e \<Rightarrow> (sell_except c e st, None)
            | Inr tx_hash_hex \<Rightarrow>
           (let st1 = st\<lparr>st_sent := st_sent st @ [tx]\<rparr> in
            case ch_receipt ch of
              Inl e \<Rightarrow> (sell_except c e st1, None)
            | Inr tx_receipt \<Rightarrow>
              (let gas_used = (case rc_gasUsed tx_receipt of None \<Rightarrow> 0 | Some g \<Rightarrow> g);
                   gas_usage_percent = real gas_used / real_of_int (py_int gas_limit) * 100
               in if rc_status tx_receipt = 1 then
                    (let db1 = snd (record_transaction (st_db st1) (sc_token_address c) (sc_token_symbol c)
                                      (if sc_is_test c then ''test_sell'' else ''sell'')
                                      amount estimated_bnb tx_hash_hex None);
                         db2 = (case sc_portfolio_id c of
                                  Some pid \<Rightarrow>
                                    if \<not> sc_is_test c then snd (update_portfolio_status db1 pid ''sold'')
                                    else db1
                                | None \<Rightarrow> db1)
                     in (st1\<lparr>st_db := db2\<rparr>, Some (SellSuccess tx_hash_hex amount estimated_bnb)))
                  else
                    (let reason = decode_revert_reason (ch_replay ch);
                         reasons = failure_reasons st1 @ [reason];
                         db1 = snd (record_failed_transaction (st_db st1) (sc_token_address c)
                                      (sc_token_symbol c) ''sell'' (Some amount) (Some tx_hash_hex) reason)
                     in (st1\<lparr>failure_reasons :=
                               (if gas_usage_percent > 95 then reasons @ [''OUT_OF_GAS''] else reasons),
                             st_db := db1\<rparr>, None))))))"

text \<open>The estimation: \<open>if not estimated_bnb\<close> holds for \<open>None\<close> and for the float 0.\<close>

definition sell_quote ::
  "config \<Rightarrow> sell_call \<Rightarrow> sell_chain \<Rightarrow> nat \<Rightarrow> int \<Rightarrow> real \<Rightarrow> sell_state
     \<Rightarrow> sell_state \<times> sell_outcome option" where
  "sell_quote cfg c ch attempt amount_tokens_wei amount st =
     (let estimated_bnb = estimate_bnb_output (ch_getAmountsOut ch) amount (sc_token_decimals c) 3 in
      if estimated_bnb = None \<or> estimated_bnb = Some 0
      then (st\<lparr>failure_reasons := failure_reasons st @ [''ESTIMATION_FAILED'']\<rparr>,
            Some (SellFailedReason ''Failed to estimate BNB output'' None))
      else sell_submit cfg c ch attempt amount_tokens_wei amount (the estimated_bnb) st)"

text \<open>The dust check and the approval of the router.\<close>

definition sell_approve ::
  "config \<Rightarrow> sell_call \<Rightarrow> sell_chain \<Rightarrow> nat \<Rightarrow> int \<Rightarrow> real \<Rightarrow> sell_state
     \<Rightarrow> sell_state \<times> sell_outcome option" where
  "sell_approve cfg c ch attempt amount_tokens_wei amount st =
     (if amount_tokens_wei < 1000 then (st, Some (SellSkipped ''Amount too small''))
      else case ch_allowance ch of
        Inl e \<Rightarrow> (sell_except c e st, None)
      | Inr allowance \<Rightarrow>
          if int allowance < amount_tokens_wei then
            (case ch_approve_send ch of
               Inl e \<Rightarrow> (sell_except c e st, None)
             | Inr approve_tx_hash \<Rightarrow>
                (case ch_approve_receipt ch of
                   Inl e \<Rightarrow> (sell_except c e st, None)
                 | Inr status \<Rightarrow>
                     if status \<noteq> 1 then
                       (let reason = decode_revert_reason (ch_approve_replay ch) in
                        (st\<lparr>failure_reasons := failure_reasons st @ [''APPROVAL_FAILED: '' @ reason]\<rparr>,
                         Some (SellFailedReason (''Approval failed: '' @ reason) (Some approve_tx_hash))))
                     else sell_quote cfg c ch attempt amount_tokens_wei amount st))
          else sell_quote cfg c ch attempt amount_tokens_wei amount st)"

text \<open>
  The head of the attempt: the contracts, then the amount. The amount is read from the
  wallet when none is known; otherwise, after the first attempt, the variable
  \<open>amount_tokens\<close> is multiplied by the reduction factor and assigned again.
\<close>

definition sell_attempt ::
  "config \<Rightarrow> sell_call \<Rightarrow> sell_chain \<Rightarrow> nat \<Rightarrow> sell_state \<Rightarrow> sell_state \<times> sell_outcome option" where
  "sell_attempt cfg c ch attempt st =
     (case ch_setup ch of
        Inl e \<Rightarrow> (sell_except c e st, None)
      | Inr token_contract \<Rightarrow>
          if \<not> token_contract then (st, Some SellNone)
          else (case st_amount_tokens st of
            None \<Rightarrow>
              (case ch_balanceOf ch of
                 Inl e \<Rightarrow> (sell_except c e st, None)
               | Inr amount_tokens_wei \<Rightarrow>
                   (let amount = real amount_tokens_wei / 10 ^ sc_token_decimals c in
                    sell_approve cfg c ch attempt (int amount_tokens_wei) amount
                      (st\<lparr>st_amount_tokens := Some amount\<rparr>)))
          | Some original_amount \<Rightarrow>
              (let amount = (if attempt > 0
                             then original_amount * reduction_factor attempt (failure_reasons st)
                             else original_amount)
               in sell_approve cfg c ch attempt (py_int (amount * 10 ^ sc_token_decimals c)) amount
                    (st\<lparr>st_amount_tokens := Some amount\<rparr>))))"

text \<open>\<open>for attempt in range(max_retries)\<close>: the first argument counts the attempts left.\<close>

fun sell_loop ::
  "config \<Rightarrow> sell_call \<Rightarrow> (nat \<Rightarrow> sell_chain) \<Rightarrow> nat \<Rightarrow> nat \<Rightarrow> sell_state
     \<Rightarrow> sell_state \<times> sell_outcome option" where
  "sell_loop cfg c chain 0 attempt st = (st, None)"
| "sell_loop cfg c chain (Suc k) attempt st =
     (case sell_attempt cfg c (chain attempt) attempt st of
        (st', Some r) \<Rightarrow> (st', Some r)
      | (st', None) \<Rightarrow> sell_loop cfg c chain k (Suc attempt) st')"

text \<open>
  The schedule of the gradual selling (percent, delay in minutes), and the loop that
  queues it; times are in seconds, \<open>now k\<close> is the k-th reading of \<open>datetime.now()\<close>.
\<close>

definition sell_schedule :: "(nat \<times> nat) list" where
  "sell_schedule = [(5, 5), (10, 15), (15, 30), (20, 60), (50, 120)]"

fun queue_schedule ::
  "(nat \<Rightarrow> real) \<Rightarrow> string \<Rightarrow> string \<Rightarrow> nat \<Rightarrow> real \<Rightarrow> nat \<Rightarrow> (nat \<times> nat) list \<Rightarrow> store \<Rightarrow> store" where
  "queue_schedule now addr symbol decimals total_amount k [] db = db"
| "queue_schedule now addr symbol decimals total_amount k ((percent, delay_minutes) # schedule) db =
     (let sell_amount = total_amount * (real percent / 100);
          scheduled_time = now k + 60 * real delay_minutes
      in queue_schedule now addr symbol decimals total_amount (Suc k) schedule
           (add_to_sell_queue db addr symbol decimals sell_amount scheduled_time))"

text \<open>
  The whole call. After the loop the token is queued for gradual selling when three
  reasons are recorded and one is a restriction tag; the import of \<open>add_to_sell_queue\<close>
  may fail (\<open>ImportError\<close>, caught), and \<open>amount_tokens * ...\<close> raises \<open>TypeError\<close>,
  which nothing catches, when the amount was never known.
\<close>

definition execute_sell ::
  "config \<Rightarrow> sell_env \<Rightarrow> sell_call \<Rightarrow> real option \<Rightarrow> nat \<Rightarrow> store
     \<Rightarrow> (exn + sell_outcome) \<times> sell_state" where
  "execute_sell cfg env c amount max_retries db =
     (case sell_loop cfg c (se_chain env) max_retries 0
             \<lparr> failure_reasons = [], st_amount_tokens = amount, st_db = db, st_sent = [] \<rparr> of
        (st, Some r) \<Rightarrow> (Inr r, st)
      | (st, None) \<Rightarrow>
          (let failed = SellFailed (failure_reasons st) (sc_token_address c) (sc_token_symbol c) in
           if length (failure_reasons st) \<ge> 3 \<and>
              list_ex (\<lambda>reason. reason \<in> set [''ALWAYS_FAILING'', ''EXECUTION_REVERTED''])
                (failure_reasons st)
           then
             if \<not> has_add_to_sell_queue (st_db st) then (Inr failed, st)
             else (case st_amount_tokens st of
                None \<Rightarrow> (Inl (TypeError, ''unsupported operand type(s) for *''), st)
              | Some total_amount \<Rightarrow>
                  (Inr failed,
                   st\<lparr>st_db := queue_schedule (se_now env) (sc_token_address c) (sc_token_symbol c)
                                  (sc_token_decimals c) total_amount 0 sell_schedule (st_db st)\<rparr>))
           else (Inr failed, st)))"

subsection \<open>queue_token_for_gradual_selling\<close>


section \<open>trading/profit_management.py\<close>

definition calculate_profit_percentage :: "real \<Rightarrow> real \<Rightarrow> real" where
  "calculate_profit_percentage current_value investment_amount =
     (if investment_amount = 0 then 0
      else ((current_value - investment_amount) / investment_amount) * 100)"

text \<open>
  The dictionaries \<open>execute_take_profit_strategy\<close> returns: failed and skipped with a
  reason, success with \<open>profit_percentage\<close>, \<open>tokens_sold\<close> and \<open>bnb_received\<close>.
\<close>

datatype tp_outcome = TpFailed string | TpSkipped string | TpSuccess real real real

text \<open>
  The second half of the function: the call of \<open>execute_sell\<close> with the chosen amount
  and the position's id (\<open>is_test\<close> and \<open>max_retries\<close> keep their defaults), and the
  translation of its result. An exception of \<open>execute_sell\<close> is caught by the
  surrounding \<open>except Exception\<close>. The result carries the database and the swaps sent.
\<close>

definition take_profit_sell ::
  "config \<Rightarrow> sell_env \<Rightarrow> string \<Rightarrow> string \<Rightarrow> nat \<Rightarrow> nat option \<Rightarrow> real \<Rightarrow> real \<Rightarrow> store
     \<Rightarrow> tp_outcome \<times> store \<times> sell_tx list" where
  "take_profit_sell cfg env token_address token_symbol token_decimals portfolio_id
       profit_percentage sell_amount db =
     (case execute_sell cfg env
             \<lparr> sc_token_address = token_address, sc_token_symbol = token_symbol,
               sc_token_decimals = token_decimals, sc_portfolio_id = portfolio_id,
               sc_is_test = False \<rparr> (Some sell_amount) 3 db of
        (Inr (SellSuccess tx_hash tokens_sold bnb_received), st) \<Rightarrow>
          (TpSuccess profit_percentage sell_amount bnb_received, st_db st, st_sent st)
      | (Inr _, st) \<Rightarrow> (TpFailed ''Sell execution failed'', st_db st, st_sent st)
      | (Inl e, st) \<Rightarrow> (TpFailed (snd e), st_db st, st_sent st))"

definition execute_take_profit_strategy ::
  "config \<Rightarrow> (nat \<Rightarrow> int \<Rightarrow> exn + nat) \<Rightarrow> sell_env \<Rightarrow> string \<Rightarrow> string \<Rightarrow> nat \<Rightarrow> real \<Rightarrow> real
     \<Rightarrow> nat option \<Rightarrow> store \<Rightarrow> tp_outcome \<times> store \<times> sell_tx list" where
  "execute_take_profit_strategy cfg quote env token_address token_symbol token_decimals
       amount_tokens investment_amount portfolio_id db =
     (case estimate_bnb_output quote amount_tokens token_decimals 3 of
        None \<Rightarrow> (TpFailed ''Failed to estimate current value'', db, [])
      | Some current_value \<Rightarrow>
          (let profit_percentage = calculate_profit_percentage current_value investment_amount in
           if profit_percentage \<ge> 100 then
             take_profit_sell cfg env token_address token_symbol token_decimals portfolio_id
               profit_percentage (amount_tokens * (75 / 100)) db
           else if profit_percentage \<ge> 50 then
             take_profit_sell cfg env token_address token_symbol token_decimals portfolio_id
               profit_percentage (amount_tokens * (5 / 10)) db
           else if profit_percentage \<ge> TAKE_PROFIT_PERCENTAGE cfg then
             take_profit_sell cfg env token_address token_symbol token_decimals portfolio_id
               profit_percentage (amount_tokens * (25 / 100)) db
           else (TpSkipped ''Profit threshold not met'', db, [])))"

section \<open>trading/buy.py\<close>

text \<open>
  The answers of the chain during one attempt of \<open>execute_buy\<close>: the contracts, the
  symbol and decimals of the token, the quote of the router, the gas price, the send
  of the swap, the status of its receipt and the balance read after a success.
\<close>

record buy_chain =
  bc_setup :: "exn + bool"
  bc_symbol_decimals :: "exn + string \<times> nat"
  bc_getAmountsOut :: "exn + nat"
  bc_gas_price :: "exn + nat"
  bc_send :: "exn + string"
  bc_receipt :: "exn + nat"
  bc_balanceOf :: "exn + nat"

definition calculate_min_tokens :: "config \<Rightarrow> buy_chain \<Rightarrow> real option \<Rightarrow> int option" where
  "calculate_min_tokens cfg ch slippage_percentage =
     (let slippage = (case slippage_percentage of None \<Rightarrow> SLIPPAGE cfg | Some p \<Rightarrow> p) in
      case bc_getAmountsOut ch of
        Inl e \<Rightarrow> None
      | Inr amount_out \<Rightarrow> Some (py_int (real amount_out * (100 - slippage) / 100)))"

text \<open>
  The values \<open>execute_buy\<close> returns: \<open>None\<close>, the success dictionary (hash, token
  balance, BNB spent) and the failed dictionary, which holds the hash only.
\<close>

datatype buy_outcome = BuyNone | BuySuccess string real real | BuyFailed string

text \<open>
  One attempt. Both \<open>except\<close> clauses only log, so an exception changes nothing and the
  loop goes on (result \<open>None\<close>). The price \<open>bnb_amount / (token_balance / 10 ** decimals)\<close>
  raises \<open>ZeroDivisionError\<close> on an empty balance, after the transaction was recorded.
\<close>

definition buy_attempt ::
  "config \<Rightarrow> buy_chain \<Rightarrow> string \<Rightarrow> real \<Rightarrow> bool \<Rightarrow> store \<Rightarrow> store \<times> buy_outcome option" where
  "buy_attempt cfg ch token_address bnb_amount is_test db =
     (case bc_setup ch of
        Inl e \<Rightarrow> (db, None)
      | Inr token_contract \<Rightarrow>
         (if \<not> token_contract then (db, Some BuyNone)
          else (case bc_symbol_decimals ch of
             Inl e \<Rightarrow> (db, None)
           | Inr (token_symbol, token_decimals) \<Rightarrow>
              (let min_tokens = calculate_min_tokens cfg ch None in
               if min_tokens = None \<or> min_tokens = Some 0 then (db, Some BuyNone)
               else (case bc_gas_price ch of
                  Inl e \<Rightarrow> (db, None)
                | Inr base_gas_price \<Rightarrow>
                   (case bc_send ch of
                      Inl e \<Rightarrow> (db, None)
                    | Inr tx_hash_hex \<Rightarrow>
                       (case bc_receipt ch of
                          Inl e \<Rightarrow> (db, None)
                        | Inr status \<Rightarrow>
                           (if status = 1 then
                              (case bc_balanceOf ch of
                                 Inl e \<Rightarrow> (db, None)
                               | Inr token_balance \<Rightarrow>
                                  (let tokens = real token_balance / 10 ^ token_decimals;
                                       db1 = snd (record_transaction db token_address token_symbol
                                                    (if is_test then ''test_buy'' else ''buy'')
                                                    tokens bnb_amount tx_hash_hex None)
                                   in if \<not> is_test then
                                        (if tokens = 0 then (db1, None)
                                         else (snd (add_to_portfolio db1 token_address token_symbol
                                                      tokens (bnb_amount / tokens) bnb_amount
                                                      (TAKE_PROFIT_PERCENTAGE cfg)
                                                      (STOP_LOSS_PERCENTAGE cfg)),
                                               Some (BuySuccess tx_hash_hex tokens bnb_amount)))
                                      else (db1, Some (BuySuccess tx_hash_hex tokens bnb_amount))))
                            else
                              ((if \<not> is_test
                                then snd (add_to_blacklist db token_address token_symbol
                                            ''Buy transaction failed'')
                                else db),
                               Some (BuyFailed tx_hash_hex))))))))))"

fun buy_loop ::
  "config \<Rightarrow> (nat \<Rightarrow> buy_chain) \<Rightarrow> string \<Rightarrow> real \<Rightarrow> bool \<Rightarrow> nat \<Rightarrow> nat \<Rightarrow> store
     \<Rightarrow> store \<times> buy_outcome option" where
  "buy_loop cfg chain token_address bnb_amount is_test 0 attempt db = (db, None)"
| "buy_loop cfg chain token_address bnb_amount is_test (Suc k) attempt db =
     (case buy_attempt cfg (chain attempt) token_address bnb_amount is_test db of
        (db', Some r) \<Rightarrow> (db', Some r)
      | (db', None) \<Rightarrow> buy_loop cfg chain token_address bnb_amount is_test k (Suc attempt) db')"

text \<open>After the loop: \<open>return None\<close>.\<close>

definition execute_buy ::
  "config \<Rightarrow> (nat \<Rightarrow> buy_chain) \<Rightarrow> string \<Rightarrow> real \<Rightarrow> bool \<Rightarrow> nat \<Rightarrow> store \<Rightarrow> buy_outcome \<times> store" where
  "execute_buy cfg chain token_address bnb_amount is_test max_retries db =
     (case buy_loop cfg chain token_address bnb_amount is_test max_retries 0 db of
        (db', Some r) \<Rightarrow> (r, db')
      | (db', None) \<Rightarrow> (BuyNone, db'))"

section \<open>security/token_checks.py\<close>

text \<open>
  \<open>detect_suspicious_assembly\<close>: \<open>code k\<close> is what \<open>w3.eth.get_code(...).hex()\<close> answers
  at attempt \<open>k\<close>. When every attempt raises, the token counts as suspicious.
\<close>

definition suspicious_patterns :: "string list" where
  "suspicious_patterns =
     [''selfdestruct'', ''suicide'', ''delegatecall'', ''callcode'', ''iszero(caller'', ''origin'']"

fun assembly_loop :: "(nat \<Rightarrow> exn + string) \<Rightarrow> nat \<Rightarrow> nat \<Rightarrow> bool" where
  "assembly_loop code 0 attempt = True"
| "assembly_loop code (Suc k) attempt =
     (case code attempt of
        Inl e \<Rightarrow> assembly_loop code k (Suc attempt)
      | Inr contract_code \<Rightarrow>
          (let contract_code_lower = str_lower contract_code in
           if py_in ''assembly'' contract_code_lower then True
           else list_ex (\<lambda>pattern. py_in pattern contract_code_lower) suspicious_patterns))"

definition detect_suspicious_assembly :: "config \<Rightarrow> (nat \<Rightarrow> exn + string) \<Rightarrow> nat \<Rightarrow> bool" where
  "detect_suspicious_assembly cfg code max_retries =
     (if \<not> ASSEMBLY_CHECK_ENABLED cfg then False else assembly_loop code max_retries 0)"

text \<open>
  \<open>check_token_sell_history\<close>: an answer of the explorer is the HTTP status code, the
  status field of the body and the transfers (sender, token address); the request or the
  decoding may raise. Without an API key, on a bad answer and after the last retry the
  check is skipped (\<open>True\<close>).
\<close>

type_synonym explorer_answer = "nat \<times> string \<times> (string \<times> string) list"

fun history_loop ::
  "config \<Rightarrow> (nat \<Rightarrow> exn + explorer_answer) \<Rightarrow> string \<Rightarrow> string \<Rightarrow> nat \<Rightarrow> nat \<Rightarrow> bool" where
  "history_loop cfg explorer token_address pair_address 0 attempt = True"
| "history_loop cfg explorer token_address pair_address (Suc k) attempt =
     (if BSCSCAN_API_KEY cfg = [] then True
      else case explorer attempt of
        Inl e \<Rightarrow> history_loop cfg explorer token_address pair_address k (Suc attempt)
      | Inr (status_code, data_status, result) \<Rightarrow>
          if status_code \<noteq> 200 then True
          else if data_status \<noteq> ''1'' then True
          else
            (let successful_sells =
                   length (filter (\<lambda>(tx_from, tx_token).
                                     str_lower tx_from = str_lower pair_address \<and>
                                     str_lower tx_token = str_lower token_address) result)
             in int successful_sells \<ge> MIN_SUCCESSFUL_SELLS cfg))"

definition check_token_sell_history ::
  "config \<Rightarrow> (nat \<Rightarrow> exn + explorer_answer) \<Rightarrow> string \<Rightarrow> string \<Rightarrow> nat \<Rightarrow> bool" where
  "check_token_sell_history cfg explorer token_address pair_address max_retries =
     history_loop cfg explorer token_address pair_address max_retries 0"

text \<open>
  \<open>check_for_honeypot\<close>: \<open>instance\<close> is the outer part of the \<open>try\<close> (the web3 instance
  and the contracts), \<open>estimate\<close> the inner one (building the approval and
  \<open>estimate_gas\<close>). Either failure blacklists the token with its own reason.
\<close>

definition check_for_honeypot ::
  "config \<Rightarrow> exn + unit \<Rightarrow> exn + nat \<Rightarrow> store \<Rightarrow> string \<Rightarrow> string \<Rightarrow> bool \<times> store" where
  "check_for_honeypot cfg inst estimate db token_address token_symbol =
     (if \<not> HONEYPOT_CHECK_ENABLED cfg then (False, db)
      else case inst of
        Inl e \<Rightarrow>
          (True, snd (add_to_blacklist db token_address token_symbol
                        (''Error during honeypot check: '' @ snd e)))
      | Inr u \<Rightarrow>
          (case estimate of
             Inl e \<Rightarrow>
               (True, snd (add_to_blacklist db token_address token_symbol
                             (''Approval function manipulation detected: '' @ snd e)))
           | Inr gas_estimate \<Rightarrow> (False, db)))"

section \<open>tokendata/analysis.py\<close>

text \<open>
  The answers of the chain during one screening. \<open>sv_instance\<close> is
  \<open>Web3Singleton.get_instance()\<close> at the head of \<open>analyze_token\<close>, \<open>sv_checksum\<close> is
  \<open>to_checksum_address\<close>, which raises on a malformed address. The other fields give, by
  attempt, the answers inside the retry loops:
  \<^item> \<open>fetch_token_data\<close>: the web3 instance, whether \<open>get_token_contract\<close> gives a contract,
    and the four reads (name, symbol, decimals, total supply);
  \<^item> \<open>get_pair_address\<close>: \<open>getPair\<close>;
  \<^item> \<open>check_token_liquidity\<close>: the web3 instance, whether \<open>get_pair_contract\<close> gives a
    contract, and the reads \<open>getReserves\<close> (two reserves) and \<open>token0\<close>;
  \<^item> the bytecode, the explorer and the two parts of the honeypot probe.
\<close>

record fetch_chain =
  fc_instance :: "exn + unit"
  fc_contract :: bool
  fc_metadata :: "exn + string \<times> string \<times> nat \<times> nat"

record liquidity_chain =
  lc_instance :: "exn + unit"
  lc_contract :: bool
  lc_reads :: "exn + nat \<times> nat \<times> string"

record screen_env =
  sv_instance :: "exn + unit"
  sv_checksum :: "string \<Rightarrow> exn + string"
  sv_fetch :: "nat \<Rightarrow> fetch_chain"
  sv_pair :: "nat \<Rightarrow> exn + string"
  sv_liquidity :: "nat \<Rightarrow> liquidity_chain"
  sv_code :: "nat \<Rightarrow> exn + string"
  sv_explorer :: "nat \<Rightarrow> exn + explorer_answer"
  sv_honeypot_instance :: "exn + unit"
  sv_estimate_gas :: "exn + nat"

record token_data =
  td_name :: string
  td_symbol :: string
  td_decimals :: nat
  td_total_supply :: nat
  td_address :: string

subsection \<open>get_pair_address\<close>

fun pair_loop :: "(nat \<Rightarrow> exn + string) \<Rightarrow> nat \<Rightarrow> nat \<Rightarrow> string option" where
  "pair_loop getPair 0 attempt = None"
| "pair_loop getPair (Suc k) attempt =
     (case getPair attempt of
        Inl e \<Rightarrow> pair_loop getPair k (Suc attempt)
      | Inr pair_address \<Rightarrow>
          if pair_address = ''0x0000000000000000000000000000000000000000'' then None
          else Some pair_address)"

definition get_pair_address :: "(nat \<Rightarrow> exn + string) \<Rightarrow> nat \<Rightarrow> string option" where
  "get_pair_address getPair max_retries = pair_loop getPair max_retries 0"

subsection \<open>fetch_token_data\<close>

text \<open>
  The first pattern of \<open>BLACKLISTED_PATTERNS\<close>, in the order of the list, that occurs in
  the lowered name or symbol: the \<open>for\<close> loop over the patterns returns at its first hit.
\<close>

definition blacklisted_pattern :: "string \<Rightarrow> string \<Rightarrow> string option" where
  "blacklisted_pattern name symbol =
     find (\<lambda>pattern. py_in pattern (str_lower name) \<or> py_in pattern (str_lower symbol))
       BLACKLISTED_PATTERNS"

text \<open>
  The loop carries \<open>token_address\<close>, which each attempt replaces by its checksum form,
  and the database. An exception inside the \<open>try\<close> leads to the next attempt.
\<close>

fun fetch_loop ::
  "screen_env \<Rightarrow> nat \<Rightarrow> nat \<Rightarrow> string \<Rightarrow> store \<Rightarrow> token_data option \<times> store" where
  "fetch_loop env 0 attempt token_address db = (None, db)"
| "fetch_loop env (Suc k) attempt token_address db =
     (case fc_instance (sv_fetch env attempt) of
        Inl e \<Rightarrow> fetch_loop env k (Suc attempt) token_address db
      | Inr u \<Rightarrow>
         (case sv_checksum env token_address of
            Inl e \<Rightarrow> fetch_loop env k (Suc attempt) token_address db
          | Inr checksum_address \<Rightarrow>
             (if checksum_address = [] then (None, db)
              else if is_token_blacklisted db checksum_address then (None, db)
              else if \<not> fc_contract (sv_fetch env attempt) then (None, db)
              else (case fc_metadata (sv_fetch env attempt) of
                 Inl e \<Rightarrow> fetch_loop env k (Suc attempt) checksum_address db
               | Inr (name, symbol, decimals, total_supply) \<Rightarrow>
                  (case blacklisted_pattern name symbol of
                     Some pattern \<Rightarrow>
                       (None, snd (add_to_blacklist db checksum_address symbol
                                     (''Contains blacklisted pattern: '' @ pattern)))
                   | None \<Rightarrow>
                       (Some \<lparr> td_name = name, td_symbol = symbol, td_decimals = decimals,
                               td_total_supply = total_supply, td_address = checksum_address \<rparr>,
                        db))))))"

definition fetch_token_data ::
  "screen_env \<Rightarrow> store \<Rightarrow> string \<Rightarrow> nat \<Rightarrow> token_data option \<times> store" where
  "fetch_token_data env db token_address max_retries = fetch_loop env max_retries 0 token_address db"

subsection \<open>check_token_liquidity\<close>

fun liquidity_loop :: "config \<Rightarrow> (nat \<Rightarrow> liquidity_chain) \<Rightarrow> nat \<Rightarrow> nat \<Rightarrow> real option" where
  "liquidity_loop cfg chain 0 attempt = None"
| "liquidity_loop cfg chain (Suc k) attempt =
     (case lc_instance (chain attempt) of
        Inl e \<Rightarrow> liquidity_loop cfg chain k (Suc attempt)
      | Inr u \<Rightarrow>
         (if \<not> lc_contract (chain attempt) then None
          else (case lc_reads (chain attempt) of
             Inl e \<Rightarrow> liquidity_loop cfg chain k (Suc attempt)
           | Inr (reserve0, reserve1, token0) \<Rightarrow>
              (let bnb_reserve = (if str_lower token0 = str_lower (WBNB_ADDRESS cfg)
                                  then reserve0 else reserve1);
                   bnb_liquidity = real bnb_reserve / 10 ^ 18
               in if bnb_liquidity < MIN_LIQUIDITY cfg then None else Some bnb_liquidity))))"

definition check_token_liquidity :: "config \<Rightarrow> (nat \<Rightarrow> liquidity_chain) \<Rightarrow> nat \<Rightarrow> real option" where
  "check_token_liquidity cfg chain max_retries = liquidity_loop cfg chain max_retries 0"

subsection \<open>analyze_token\<close>

text \<open>
  The result is the exception that leaves the function (the first two calls are outside
  every \<open>try\<close>), or \<open>None\<close>, or the analysis: the token data, the pair address and the
  liquidity in BNB.
\<close>

definition analyze_token ::
  "config \<Rightarrow> screen_env \<Rightarrow> store \<Rightarrow> string
     \<Rightarrow> (exn + (token_data \<times> string \<times> real) option) \<times> store" where
  "analyze_token cfg env db token_address =
     (case sv_instance env of
        Inl e \<Rightarrow> (Inl e, db)
      | Inr u \<Rightarrow>
     (case sv_checksum env token_address of
        Inl e \<Rightarrow> (Inl e, db)
      | Inr checksum_address \<Rightarrow>
     (if checksum_address = [] then (Inr None, db)
      else if is_token_blacklisted db checksum_address then (Inr None, db)
      else (case fetch_token_data env db checksum_address 3 of
         (None, db1) \<Rightarrow> (Inr None, db1)
       | (Some data, db1) \<Rightarrow>
      (case get_pair_address (sv_pair env) 3 of
         None \<Rightarrow> (Inr None, db1)
       | Some pair_address \<Rightarrow>
      (if pair_address = [] then (Inr None, db1)
       else (case check_token_liquidity cfg (sv_liquidity env) 3 of
         None \<Rightarrow> (Inr None, db1)
       | Some liquidity \<Rightarrow>
      (if liquidity = 0 then (Inr None, db1)
       else if detect_suspicious_assembly cfg (sv_code env) 3 then
         (Inr None, snd (add_to_blacklist db1 checksum_address (td_symbol data)
                           ''Suspicious assembly code detected''))
       else if \<not> check_token_sell_history cfg (sv_explorer env) checksum_address pair_address 3 then
         (Inr None, snd (add_to_blacklist db1 checksum_address (td_symbol data)
                           ''Insufficient sell history''))
       else (case check_for_honeypot cfg (sv_honeypot_instance env) (sv_estimate_gas env) db1
                    checksum_address (td_symbol data) of
         (True, db2) \<Rightarrow>
           (Inr None, snd (add_to_blacklist db2 checksum_address (td_symbol data)
                             ''Honeypot detected''))
       | (False, db2) \<Rightarrow> (Inr (Some (data, pair_address, liquidity)), db2))))))))))"

section \<open>Concrete inputs\<close>

text \<open>
  A position of 1000 tokens of an 18-decimal token bought for 1 BNB, and the database
  that holds it as its only, active, portfolio row.
\<close>

definition example_call :: sell_call where
  "example_call =
     \<lparr> sc_token_address = ''0xToken'', sc_token_symbol = ''TKN'', sc_token_decimals = 18,
       sc_portfolio_id = Some 1, sc_is_test = False \<rparr>"

definition example_db :: store where
  "example_db =
     \<lparr> db_conn = True, blacklisted_tokens = Map.empty,
       portfolio = [\<lparr> p_id = 1, p_token_address = ''0xToken'', p_token_symbol = ''TKN'',
                      p_amount_tokens = 1000, p_purchase_price_bnb = 1 / 1000,
                      p_investment_amount_bnb = 1, p_take_profit_target = 20,
                      p_stop_loss_target = 10, p_status = ''active'' \<rparr>],
       transactions = [], failed_transactions = [],
       has_add_to_sell_queue = False, sell_queue = [] \<rparr>"

text \<open>
  An attempt in which every call answers: the router is already approved, the quote is
  \<open>quote_wei\<close>, the swap is mined with the given receipt status and gas used, and the
  replay of a reverted swap answers \<open>rp\<close>.
\<close>

definition mined_chain :: "nat \<Rightarrow> nat \<Rightarrow> nat \<Rightarrow> replay \<Rightarrow> sell_chain" where
  "mined_chain quote_wei status gas_used rp =
     \<lparr> ch_setup = Inr True, ch_balanceOf = Inr 0, ch_allowance = Inr (2 ^ 256 - 1),
       ch_approve_send = Inr ''0xapprove'', ch_approve_receipt = Inr 1,
       ch_approve_replay = CallReturns,
       ch_getAmountsOut = (\<lambda>k wei. Inr quote_wei),
       ch_gas_price = Inr 5000000000, ch_time = 1700000000,
       ch_send = Inr ''0xsell'',
       ch_receipt = Inr \<lparr> rc_status = status, rc_gasUsed = Some gas_used \<rparr>,
       ch_replay = rp \<rparr>"

text \<open>Every swap reverts for no decodable reason, using a third of its gas.\<close>

definition reverting_env :: sell_env where
  "reverting_env =
     \<lparr> se_chain = (\<lambda>attempt. mined_chain (22 * 10 ^ 17) 0 100000 CallReturns),
       se_now = (\<lambda>k. 0) \<rparr>"


text \<open>The router quotes zero BNB for the tokens.\<close>

definition zero_quote_env :: sell_env where
  "zero_quote_env =
     \<lparr> se_chain = (\<lambda>attempt. mined_chain 0 1 100000 CallReturns), se_now = (\<lambda>k. 0) \<rparr>"

text \<open>Every swap is mined with success, using half of the gas, or all of it.\<close>

definition success_env :: sell_env where
  "success_env =
     \<lparr> se_chain = (\<lambda>attempt. mined_chain (22 * 10 ^ 17) 1 150000 CallReturns),
       se_now = (\<lambda>k. 0) \<rparr>"


text \<open>A router that quotes the same output at every attempt and for every amount.\<close>

definition constant_quote :: "nat \<Rightarrow> nat \<Rightarrow> int \<Rightarrow> exn + nat" where
  "constant_quote amount_out attempt token_amount_wei = Inr amount_out"


text \<open>A buy whose swap is sent and whose receipt never arrives, at every attempt.\<close>

definition timeout_buy_env :: "nat \<Rightarrow> buy_chain" where
  "timeout_buy_env attempt =
     \<lparr> bc_setup = Inr True, bc_symbol_decimals = Inr (''TKN'', 18),
       bc_getAmountsOut = Inr (10 ^ 21), bc_gas_price = Inr 5000000000,
       bc_send = Inr ''0xbuy'',
       bc_receipt = Inl (TimeExhausted, ''Transaction is not in the chain after 120 seconds''),
       bc_balanceOf = Inr 0 \<rparr>"

text \<open>Every swap reverts after using 299999 gas.\<close>

definition near_limit_env :: sell_env where
  "near_limit_env =
     \<lparr> se_chain = (\<lambda>attempt. mined_chain (22 * 10 ^ 17) 0 299999 CallReturns),
       se_now = (\<lambda>k. 0) \<rparr>"

section \<open>What an attempt of execute_sell keeps\<close>

text \<open>
  The relation between the state before a part of an attempt and its result: a known
  amount stays known, the database keeps its set of operations, the failure reasons
  are only extended, and they are extended by at least one when the loop goes on.
\<close>

definition keeps :: "sell_state \<Rightarrow> sell_state \<times> sell_outcome option \<Rightarrow> bool" where
  "keeps st res =
     ((st_amount_tokens st \<noteq> None \<longrightarrow> st_amount_tokens (fst res) \<noteq> None)
      \<and> has_add_to_sell_queue (st_db (fst res)) = has_add_to_sell_queue (st_db st)
      \<and> prefix (failure_reasons st) (failure_reasons (fst res))
      \<and> (snd res = None \<longrightarrow> length (failure_reasons st) < length (failure_reasons (fst res))))"

section \<open>Attempts of the screening that raise\<close>

text \<open>
  An attempt of \<open>fetch_token_data\<close>, and of \<open>check_token_liquidity\<close>, that ends in an
  exception and so leads to the next attempt: the web3 instance raises, or the contract
  is there and one of its reads raises.
\<close>

definition fetch_raises :: "fetch_chain \<Rightarrow> bool" where
  "fetch_raises fc =
     ((\<exists>e. fc_instance fc = Inl e) \<or> (fc_contract fc \<and> (\<exists>e. fc_metadata fc = Inl e)))"

definition liquidity_raises :: "liquidity_chain \<Rightarrow> bool" where
  "liquidity_raises lc =
     ((\<exists>e. lc_instance lc = Inl e) \<or> (lc_contract lc \<and> (\<exists>e. lc_reads lc = Inl e)))"

text \<open>
  A chain on which every call of the screening answers at once: the token has the given
  name and symbol, its pair holds \<open>bnb_reserve\<close> wei of WBNB as \<open>token0\<close>, the bytecode
  is plain and the approval can be estimated.
\<close>

definition screen_chain :: "string \<Rightarrow> string \<Rightarrow> nat \<Rightarrow> screen_env" where
  "screen_chain name symbol bnb_reserve =
     \<lparr> sv_instance = Inr (), sv_checksum = (\<lambda>address. Inr address),
       sv_fetch = (\<lambda>attempt. \<lparr> fc_instance = Inr (), fc_contract = True,
                               fc_metadata = Inr (name, symbol, 9, 10 ^ 15) \<rparr>),
       sv_pair = (\<lambda>attempt. Inr ''0xPair''),
       sv_liquidity = (\<lambda>attempt. \<lparr> lc_instance = Inr (), lc_contract = True,
                                   lc_reads = Inr (bnb_reserve, 10 ^ 24,
                                     ''0xbb4CdB9CBd36B01bD1cBaEBF2De08d9173bc095c'') \<rparr>),
       sv_code = (\<lambda>attempt. Inr ''6080604052''),
       sv_explorer = (\<lambda>attempt. Inl (OtherError, ''no answer'')),
       sv_honeypot_instance = Inr (), sv_estimate_gas = Inr 46000 \<rparr>"

section \<open>Properties\<close>

subsection \<open>Evaluation of the loops on numerals\<close>

lemma sell_loop_numeral:
  "sell_loop cfg c chain (numeral n) attempt st =
     (case sell_attempt cfg c (chain attempt) attempt st of
        (st', Some r) \<Rightarrow> (st', Some r)
      | (st', None) \<Rightarrow> sell_loop cfg c chain (pred_numeral n) (Suc attempt) st')"
  by (simp add: numeral_eq_Suc)

lemma estimate_loop_numeral:
  "estimate_loop quote w (numeral n) attempt =
     (case quote attempt w of
        Inr amount_out \<Rightarrow> Some (real amount_out / 10 ^ 18)
      | Inl e \<Rightarrow> estimate_loop quote w (pred_numeral n) (Suc attempt))"
  by (simp add: numeral_eq_Suc)

lemmas sell_run =
  execute_sell_def sell_attempt_def sell_approve_def sell_quote_def sell_submit_def
  estimate_bnb_output_def decode_revert_reason_def reduction_factor_def extra_slippage_def
  gas_multiplier_def gas_limit_multiplier_def any_mentions_def str_lower_def char_lower_def
  record_failed_transaction_def record_transaction_def update_portfolio_status_def py_int_def
  sell_except_def sell_loop_numeral estimate_loop_numeral Let_def

subsection \<open>Gas escalation\<close>



subsection \<open>Gradual selling\<close>




subsection \<open>Reduction of the sell amount\<close>

lemma reverting_run:
  "\<exists>st. execute_sell default_config reverting_env example_call (Some 1000) 3 example_db
           = (Inr (SellFailed [''Unknown reason'', ''Unknown reason'', ''Unknown reason'']
                     ''0xToken'' ''TKN''), st)
        \<and> map tx_amount_in (st_sent st) = [1000 * 10 ^ 18, 800 * 10 ^ 18, 512 * 10 ^ 18]"
  by (simp add: sell_run mined_chain_def example_call_def example_db_def reverting_env_def
        default_config_def)

text \<open>
  Where the amount is known, an attempt after the first multiplies the amount that the
  attempt before left in \<open>amount_tokens\<close> by the reduction factor of its own index.
\<close>

lemma sell_except_amount: "st_amount_tokens (sell_except c e st) = st_amount_tokens st"
  by (simp add: sell_except_def Let_def)

lemma sell_submit_amount:
  "st_amount_tokens (fst (sell_submit cfg c ch attempt wei amount est st)) = st_amount_tokens st"
  by (simp add: sell_submit_def Let_def sell_except_amount split: sum.splits option.splits)

lemma sell_quote_amount:
  "st_amount_tokens (fst (sell_quote cfg c ch attempt wei amount st)) = st_amount_tokens st"
  by (simp add: sell_quote_def Let_def sell_submit_amount)

lemma sell_approve_amount:
  "st_amount_tokens (fst (sell_approve cfg c ch attempt wei amount st)) = st_amount_tokens st"
  by (simp add: sell_approve_def Let_def sell_quote_amount sell_except_amount split: sum.splits)

lemma sell_attempt_reduces_current_amount:
  assumes "ch_setup ch = Inr True" and "st_amount_tokens st = Some current" and "0 < attempt"
  shows "st_amount_tokens (fst (sell_attempt cfg c ch attempt st))
           = Some (current * reduction_factor attempt (failure_reasons st))"
  using assms by (simp add: sell_attempt_def Let_def sell_approve_amount)

text \<open>
  C2. A sell of 1000 tokens whose first two swaps revert for a reason that mentions
  neither gas nor "exceed": the three swaps sent carry 1000, 800 and 512 tokens. The
  third amount is the second one times \<open>0.8 ** 2\<close>; the requested amount times
  \<open>0.8 ** 2\<close> is 640 tokens.
\<close>

theorem retry_amounts_compound:
  "fst (execute_sell default_config reverting_env example_call (Some 1000) 3 example_db)
     = Inr (SellFailed [''Unknown reason'', ''Unknown reason'', ''Unknown reason'']
              ''0xToken'' ''TKN'')
   \<and> map tx_amount_in
         (st_sent (snd (execute_sell default_config reverting_env example_call (Some 1000) 3
                          example_db)))
       = [1000 * 10 ^ 18, 800 * 10 ^ 18, 512 * 10 ^ 18]
   \<and> py_int (1000 * reduction_factor 2 [''Unknown reason'', ''Unknown reason''] * 10 ^ 18)
       = 640 * 10 ^ 18"
  using reverting_run
  by (auto simp add: reduction_factor_def any_mentions_def str_lower_def char_lower_def
        py_int_def power2_eq_square)

subsection \<open>A quote of zero\<close>

text \<open>
  C10. When \<open>estimate_bnb_output\<close> returns the float 0 (a quote of zero, not \<open>None\<close>),
  the attempt records \<open>ESTIMATION_FAILED\<close> and returns the failed outcome with reason
  "Failed to estimate BNB output", exactly as it does when the estimation returns
  \<open>None\<close>; a call whose first attempt reaches the estimation returns that outcome at
  once, with no swap sent and no further attempt.
\<close>

theorem zero_quote_fails_sell:
  assumes zero: "estimate_bnb_output (ch_getAmountsOut ch) amount (sc_token_decimals c) 3 = Some 0"
  shows "sell_quote cfg c ch attempt wei amount st
           = (st\<lparr>failure_reasons := failure_reasons st @ [''ESTIMATION_FAILED'']\<rparr>,
              Some (SellFailedReason ''Failed to estimate BNB output'' None))
       \<and> (\<forall>ch'. estimate_bnb_output (ch_getAmountsOut ch') amount (sc_token_decimals c) 3 = None
             \<longrightarrow> sell_quote cfg c ch' attempt wei amount st = sell_quote cfg c ch attempt wei amount st)
       \<and> (se_chain env 0 = ch \<and> ch_setup ch = Inr True
            \<and> 1000 \<le> py_int (amount * 10 ^ sc_token_decimals c)
            \<and> (\<exists>allowance. ch_allowance ch = Inr allowance
                 \<and> (py_int (amount * 10 ^ sc_token_decimals c) \<le> int allowance
                      \<or> (\<exists>h. ch_approve_send ch = Inr h) \<and> ch_approve_receipt ch = Inr 1))
          \<longrightarrow> execute_sell cfg env c (Some amount) (Suc k) db
                = (Inr (SellFailedReason ''Failed to estimate BNB output'' None),
                   \<lparr> failure_reasons = [''ESTIMATION_FAILED''], st_amount_tokens = Some amount,
                     st_db = db, st_sent = [] \<rparr>))"
proof (intro conjI allI impI)
  show q: "sell_quote cfg c ch attempt wei amount st
           = (st\<lparr>failure_reasons := failure_reasons st @ [''ESTIMATION_FAILED'']\<rparr>,
              Some (SellFailedReason ''Failed to estimate BNB output'' None))" for attempt wei st
    using zero by (simp add: sell_quote_def)
  show "sell_quote cfg c ch' attempt wei amount st = sell_quote cfg c ch attempt wei amount st"
    if "estimate_bnb_output (ch_getAmountsOut ch') amount (sc_token_decimals c) 3 = None" for ch'
    using that zero by (simp add: sell_quote_def)
  assume reach: "se_chain env 0 = ch \<and> ch_setup ch = Inr True
            \<and> 1000 \<le> py_int (amount * 10 ^ sc_token_decimals c)
            \<and> (\<exists>allowance. ch_allowance ch = Inr allowance
                 \<and> (py_int (amount * 10 ^ sc_token_decimals c) \<le> int allowance
                      \<or> (\<exists>h. ch_approve_send ch = Inr h) \<and> ch_approve_receipt ch = Inr 1))"
  let ?st0 = "\<lparr> failure_reasons = [], st_amount_tokens = Some amount, st_db = db, st_sent = [] \<rparr>"
  have "sell_approve cfg c ch 0 (py_int (amount * 10 ^ sc_token_decimals c)) amount ?st0
          = sell_quote cfg c ch 0 (py_int (amount * 10 ^ sc_token_decimals c)) amount ?st0"
    using reach by (auto simp add: sell_approve_def)
  then have "sell_attempt cfg c ch 0 ?st0
          = (?st0\<lparr>failure_reasons := failure_reasons ?st0 @ [''ESTIMATION_FAILED'']\<rparr>,
              Some (SellFailedReason ''Failed to estimate BNB output'' None))"
    using reach q by (simp add: sell_attempt_def)
  then show "execute_sell cfg env c (Some amount) (Suc k) db
                = (Inr (SellFailedReason ''Failed to estimate BNB output'' None),
                   \<lparr> failure_reasons = [''ESTIMATION_FAILED''], st_amount_tokens = Some amount,
                     st_db = db, st_sent = [] \<rparr>)"
    using reach by (simp add: execute_sell_def)
qed

theorem zero_quote_fails_sell_witness:
  "execute_sell default_config zero_quote_env example_call (Some 1000) (Suc 2) example_db
     = (Inr (SellFailedReason ''Failed to estimate BNB output'' None),
        \<lparr> failure_reasons = [''ESTIMATION_FAILED''], st_amount_tokens = Some 1000,
          st_db = example_db, st_sent = [] \<rparr>)"
proof -
  have zero: "estimate_bnb_output (ch_getAmountsOut (mined_chain 0 1 100000 CallReturns)) 1000
                (sc_token_decimals example_call) 3 = Some 0"
    by (simp add: estimate_bnb_output_def estimate_loop_numeral mined_chain_def)
  show ?thesis
    using zero_quote_fails_sell [OF zero, where env = zero_quote_env and cfg = default_config
            and k = 2 and db = example_db]
    by (simp add: zero_quote_env_def mined_chain_def example_call_def py_int_def)
qed

subsection \<open>Facts about the attempts\<close>

lemmas tp_run = execute_take_profit_strategy_def take_profit_sell_def calculate_profit_percentage_def
  get_active_portfolio_def constant_quote_def









lemma keeps_except: "keeps st (sell_except c e st, None)"
  by (simp add: keeps_def sell_except_def Let_def record_failed_transaction_def)

lemma keeps_submit: "keeps st (sell_submit cfg c ch attempt wei amount est st)"
  by (simp add: sell_submit_def Let_def keeps_except split: sum.splits)
     (simp add: keeps_def sell_except_def Let_def record_failed_transaction_def
        record_transaction_def update_portfolio_status_def split: option.splits)

lemma keeps_quote: "keeps st (sell_quote cfg c ch attempt wei amount st)"
  by (simp add: sell_quote_def Let_def keeps_submit) (simp add: keeps_def)

lemma keeps_approve: "keeps st (sell_approve cfg c ch attempt wei amount st)"
  by (simp add: sell_approve_def Let_def keeps_quote keeps_except split: sum.splits)
     (simp add: keeps_def)

lemma keeps_amount:
  "keeps (st\<lparr>st_amount_tokens := Some a\<rparr>) res \<Longrightarrow> keeps st res"
  by (simp add: keeps_def)

lemma keeps_attempt: "keeps st (sell_attempt cfg c ch attempt st)"
  by (simp add: sell_attempt_def Let_def keeps_except keeps_amount [OF keeps_approve]
        split: sum.splits option.splits)
     (simp add: keeps_def)

lemma sell_loop_exhausted:
  "snd (sell_loop cfg c chain k attempt st) = None \<Longrightarrow>
     (st_amount_tokens st \<noteq> None \<longrightarrow> st_amount_tokens (fst (sell_loop cfg c chain k attempt st)) \<noteq> None)
     \<and> has_add_to_sell_queue (st_db (fst (sell_loop cfg c chain k attempt st)))
         = has_add_to_sell_queue (st_db st)
     \<and> prefix (failure_reasons st) (failure_reasons (fst (sell_loop cfg c chain k attempt st)))
     \<and> length (failure_reasons st) + k \<le> length (failure_reasons (fst (sell_loop cfg c chain k attempt st)))"
proof (induction k arbitrary: attempt st)
  case 0
  then show ?case by simp
next
  case (Suc k)
  obtain st1 r where att: "sell_attempt cfg c (chain attempt) attempt st = (st1, r)"
    by (cases "sell_attempt cfg c (chain attempt) attempt st")
  have r: "r = None"
  proof (cases r)
    case None
    then show ?thesis .
  next
    case (Some x)
    with att have "sell_loop cfg c chain (Suc k) attempt st = (st1, Some x)" by simp
    with Suc.prems show ?thesis by (simp del: sell_loop.simps)
  qed
  with att have loop: "sell_loop cfg c chain (Suc k) attempt st = sell_loop cfg c chain k (Suc attempt) st1"
    by simp
  have k1: "keeps st (st1, None)" using keeps_attempt [of st cfg c "chain attempt" attempt] att r by simp
  have ih: "(st_amount_tokens st1 \<noteq> None \<longrightarrow> st_amount_tokens (fst (sell_loop cfg c chain k (Suc attempt) st1)) \<noteq> None)
     \<and> has_add_to_sell_queue (st_db (fst (sell_loop cfg c chain k (Suc attempt) st1)))
         = has_add_to_sell_queue (st_db st1)
     \<and> prefix (failure_reasons st1) (failure_reasons (fst (sell_loop cfg c chain k (Suc attempt) st1)))
     \<and> length (failure_reasons st1) + k \<le> length (failure_reasons (fst (sell_loop cfg c chain k (Suc attempt) st1)))"
    using Suc.IH [of "Suc attempt" st1] Suc.prems loop by simp
  have "prefix (failure_reasons st) (failure_reasons st1)" using k1 by (simp add: keeps_def)
  with ih have "prefix (failure_reasons st) (failure_reasons (fst (sell_loop cfg c chain k (Suc attempt) st1)))"
    using prefix_order.trans by blast
  with ih k1 show ?case unfolding loop by (simp add: keeps_def)
qed


lemma buy_loop_numeral:
  "buy_loop cfg chain token_address bnb_amount is_test (numeral n) attempt db =
     (case buy_attempt cfg (chain attempt) token_address bnb_amount is_test db of
        (db', Some r) \<Rightarrow> (db', Some r)
      | (db', None) \<Rightarrow> buy_loop cfg chain token_address bnb_amount is_test (pred_numeral n) (Suc attempt) db')"
  by (simp add: numeral_eq_Suc)

subsection \<open>The out-of-gas hint\<close>








text \<open>
  A call of two attempts whose swaps revert after using 299999 gas: the first swap ran
  with a limit of 300000, so the hint is recorded; the second attempt halves the amount,
  raises the gas limit to 420000 and the gas price by the factor 1.5, and the outcome
  returned carries the hint.
\<close>

lemma hint_escalates_next_attempt:
  "\<exists>st. execute_sell default_config near_limit_env example_call (Some 1000) 2 example_db
           = (Inr (SellFailed [''Unknown reason'', ''OUT_OF_GAS'', ''Unknown reason'']
                     ''0xToken'' ''TKN''), st)
        \<and> map tx_amount_in (st_sent st) = [1000 * 10 ^ 18, 500 * 10 ^ 18]
        \<and> map tx_gas (st_sent st) = [300000, 420000]
        \<and> map tx_gasPrice (st_sent st) = [6000000000, 10800000000]"
  by (simp add: sell_run mined_chain_def example_call_def example_db_def near_limit_env_def
        default_config_def)

subsection \<open>Exhausted retries\<close>

text \<open>
  C4, as the claim states it, fails for \<open>execute_buy\<close>: when the receipt of the swap
  times out at each of the three attempts, the call returns \<open>None\<close> (\<open>BuyNone\<close>), not
  a failed outcome with reasons; the database is as before.
\<close>

theorem buy_exhausted_returns_none:
  "execute_buy default_config timeout_buy_env ''0xToken'' (5 / 100) False 3 example_db
     = (BuyNone, example_db)"
  by (simp add: execute_buy_def buy_loop_numeral buy_attempt_def calculate_min_tokens_def
        timeout_buy_env_def default_config_def py_int_def Let_def)

text \<open>
  C4, amended. When every attempt of \<open>execute_sell\<close> up to \<open>max_retries\<close> has failed and
  gone on to the next (the loop ends without a return), and the amount to sell is known
  (passed by the caller, or read from the wallet by some attempt) or the gradual-sell
  queue is not provided, the call returns the failed outcome that carries the
  accumulated failure reasons, at least one per attempt. When every attempt of
  \<open>execute_buy\<close> has failed in that way, the call returns \<open>None\<close>.
\<close>

theorem exhausted_retries:
  "(snd (sell_loop cfg c (se_chain env) n 0
           \<lparr> failure_reasons = [], st_amount_tokens = amount, st_db = db, st_sent = [] \<rparr>) = None
      \<and> (amount \<noteq> None
           \<or> st_amount_tokens (fst (sell_loop cfg c (se_chain env) n 0
                 \<lparr> failure_reasons = [], st_amount_tokens = amount, st_db = db, st_sent = [] \<rparr>))
               \<noteq> None
           \<or> \<not> has_add_to_sell_queue db)
    \<longrightarrow> fst (execute_sell cfg env c amount n db)
          = Inr (SellFailed
                   (failure_reasons (fst (sell_loop cfg c (se_chain env) n 0
                      \<lparr> failure_reasons = [], st_amount_tokens = amount, st_db = db, st_sent = [] \<rparr>)))
                   (sc_token_address c) (sc_token_symbol c))
        \<and> n \<le> length (failure_reasons (fst (sell_loop cfg c (se_chain env) n 0
                      \<lparr> failure_reasons = [], st_amount_tokens = amount, st_db = db, st_sent = [] \<rparr>))))
   \<and> (snd (buy_loop cfg chain token_address bnb_amount is_test n 0 db) = None
    \<longrightarrow> execute_buy cfg chain token_address bnb_amount is_test n db
          = (BuyNone, fst (buy_loop cfg chain token_address bnb_amount is_test n 0 db)))"
proof (intro conjI impI)
  let ?st0 = "\<lparr> failure_reasons = [], st_amount_tokens = amount, st_db = db, st_sent = [] \<rparr>"
  assume h: "snd (sell_loop cfg c (se_chain env) n 0 ?st0) = None
      \<and> (amount \<noteq> None
           \<or> st_amount_tokens (fst (sell_loop cfg c (se_chain env) n 0 ?st0)) \<noteq> None
           \<or> \<not> has_add_to_sell_queue db)"
  obtain st where loop: "sell_loop cfg c (se_chain env) n 0 ?st0 = (st, None)"
    using h by (cases "sell_loop cfg c (se_chain env) n 0 ?st0") simp
  have k: "(amount \<noteq> None \<longrightarrow> st_amount_tokens st \<noteq> None)
           \<and> has_add_to_sell_queue (st_db st) = has_add_to_sell_queue db"
    and len: "n \<le> length (failure_reasons st)"
    using sell_loop_exhausted [of cfg c "se_chain env" n 0 ?st0] h loop by simp_all
  from k h loop have "st_amount_tokens st \<noteq> None \<or> \<not> has_add_to_sell_queue (st_db st)"
    by auto
  then show "fst (execute_sell cfg env c amount n db)
          = Inr (SellFailed (failure_reasons (fst (sell_loop cfg c (se_chain env) n 0 ?st0)))
                   (sc_token_address c) (sc_token_symbol c))"
    using loop by (auto simp add: execute_sell_def Let_def split: option.splits)
  show "n \<le> length (failure_reasons (fst (sell_loop cfg c (se_chain env) n 0 ?st0)))"
    using len loop by simp
next
  assume "snd (buy_loop cfg chain token_address bnb_amount is_test n 0 db) = None"
  then show "execute_buy cfg chain token_address bnb_amount is_test n db
          = (BuyNone, fst (buy_loop cfg chain token_address bnb_amount is_test n 0 db))"
    by (cases "buy_loop cfg chain token_address bnb_amount is_test n 0 db") (simp add: execute_buy_def)
qed

theorem exhausted_retries_witness:
  "fst (execute_sell default_config reverting_env example_call (Some 1000) 3 example_db)
     = Inr (SellFailed [''Unknown reason'', ''Unknown reason'', ''Unknown reason'']
              ''0xToken'' ''TKN'')
   \<and> execute_buy default_config timeout_buy_env ''0xToken'' (5 / 100) False 3 example_db
     = (BuyNone, example_db)"
proof -
  have sell: "\<exists>st. sell_loop default_config example_call (se_chain reverting_env) 3 0
                 \<lparr> failure_reasons = [], st_amount_tokens = Some 1000, st_db = example_db,
                   st_sent = [] \<rparr> = (st, None)
               \<and> failure_reasons st = [''Unknown reason'', ''Unknown reason'', ''Unknown reason'']"
    by (simp add: sell_run mined_chain_def example_call_def example_db_def reverting_env_def
          default_config_def)
  have buy: "buy_loop default_config timeout_buy_env ''0xToken'' (5 / 100) False 3 0 example_db
               = (example_db, None)"
    by (simp add: buy_loop_numeral buy_attempt_def calculate_min_tokens_def
          timeout_buy_env_def default_config_def py_int_def Let_def)
  show ?thesis
    using sell buy
      exhausted_retries [where cfg = default_config and c = example_call and env = reverting_env
        and n = 3 and amount = "Some 1000" and db = example_db and chain = timeout_buy_env
        and token_address = "''0xToken''" and bnb_amount = "5 / 100" and is_test = False]
    by (auto simp add: example_call_def)
qed

subsection \<open>Tiered take-profit\<close>

lemma take_profit_run:
  "\<exists>db' sent. execute_take_profit_strategy default_config (constant_quote (22 * 10 ^ 17)) success_env
             ''0xToken'' ''TKN'' 18 1000 1 (Some 1) example_db
           = (TpSuccess 120 750 (22 / 10), db', sent)
        \<and> map p_status (portfolio db') = [''sold'']
        \<and> get_active_portfolio db' = []
        \<and> map tx_amount_in sent = [750 * 10 ^ 18]"
  by (simp add: tp_run sell_run mined_chain_def example_db_def success_env_def default_config_def)


text \<open>
  C1. The position of 1000 tokens bought for 1 BNB is worth 2.2 BNB (120% profit): the
  tiered strategy sells 750 tokens, and the successful partial sell sets the status of
  the position to sold, so the active portfolio, which held it, is empty afterwards and
  the remaining 250 tokens are never evaluated again.
\<close>

theorem partial_take_profit_closes_position:
  "map p_id (get_active_portfolio example_db) = [1]
   \<and> fst (execute_take_profit_strategy default_config (constant_quote (22 * 10 ^ 17)) success_env
             ''0xToken'' ''TKN'' 18 1000 1 (Some 1) example_db)
       = TpSuccess 120 750 (22 / 10)
   \<and> map tx_amount_in (snd (snd (execute_take_profit_strategy default_config
             (constant_quote (22 * 10 ^ 17)) success_env ''0xToken'' ''TKN'' 18 1000 1 (Some 1) example_db)))
       = [750 * 10 ^ 18]
   \<and> map p_status (portfolio (fst (snd (execute_take_profit_strategy default_config
             (constant_quote (22 * 10 ^ 17)) success_env ''0xToken'' ''TKN'' 18 1000 1 (Some 1) example_db))))
       = [''sold'']
   \<and> get_active_portfolio (fst (snd (execute_take_profit_strategy default_config
             (constant_quote (22 * 10 ^ 17)) success_env ''0xToken'' ''TKN'' 18 1000 1 (Some 1) example_db)))
       = []"
  using take_profit_run by (auto simp add: get_active_portfolio_def example_db_def)






subsection \<open>Screening\<close>

lemma fetch_loop_answer:
  assumes cs: "sv_checksum env addr = Inr addr" and ne: "addr \<noteq> []"
    and nb: "\<not> is_token_blacklisted db addr"
  shows "k < n \<Longrightarrow> (\<forall>j<k. fetch_raises (sv_fetch env (a + j))) \<Longrightarrow>
     (\<exists>u. fc_instance (sv_fetch env (a + k)) = Inr u) \<Longrightarrow> fc_contract (sv_fetch env (a + k)) \<Longrightarrow>
     fc_metadata (sv_fetch env (a + k)) = Inr (name, symbol, decimals, total_supply) \<Longrightarrow>
     fetch_loop env n a addr db =
       (case blacklisted_pattern name symbol of
          Some pattern \<Rightarrow>
            (None, snd (add_to_blacklist db addr symbol (''Contains blacklisted pattern: '' @ pattern)))
        | None \<Rightarrow>
            (Some \<lparr> td_name = name, td_symbol = symbol, td_decimals = decimals,
                    td_total_supply = total_supply, td_address = addr \<rparr>, db))"
proof (induction k arbitrary: n a)
  case 0
  then obtain m where n: "n = Suc m" by (cases n) auto
  from 0 show ?case unfolding n using cs ne nb by (auto split: option.splits)
next
  case (Suc k)
  then obtain m where n: "n = Suc m" by (cases n) auto
  from Suc.prems(2) have r: "fetch_raises (sv_fetch env a)" by (metis add.right_neutral zero_less_Suc)
  then have step: "fetch_loop env (Suc m) a addr db = fetch_loop env m (Suc a) addr db"
    using cs ne nb by (auto simp add: fetch_raises_def split: sum.splits)
  have "\<forall>j<k. fetch_raises (sv_fetch env (Suc a + j))"
    using Suc.prems(2) by (metis Suc_less_eq add_Suc_shift)
  then have "fetch_loop env m (Suc a) addr db =
       (case blacklisted_pattern name symbol of
          Some pattern \<Rightarrow>
            (None, snd (add_to_blacklist db addr symbol (''Contains blacklisted pattern: '' @ pattern)))
        | None \<Rightarrow>
            (Some \<lparr> td_name = name, td_symbol = symbol, td_decimals = decimals,
                    td_total_supply = total_supply, td_address = addr \<rparr>, db))"
    using Suc.IH [of m "Suc a"] Suc.prems n by simp
  with step n show ?case by simp
qed

lemma fetch_loop_db: "fetch_loop env n a addr db = (Some d, db') \<Longrightarrow> db' = db"
proof (induction n arbitrary: a addr)
  case 0
  then show ?case by simp
next
  case (Suc n)
  then show ?case
    by (auto split: sum.splits if_splits option.splits prod.splits)
qed

lemma liquidity_loop_answer:
  "k < n \<Longrightarrow> (\<forall>j<k. liquidity_raises (chain (a + j))) \<Longrightarrow>
     (\<exists>u. lc_instance (chain (a + k)) = Inr u) \<Longrightarrow> lc_contract (chain (a + k)) \<Longrightarrow>
     lc_reads (chain (a + k)) = Inr (reserve0, reserve1, token0) \<Longrightarrow>
     liquidity_loop cfg chain n a =
       (let bnb_liquidity = real (if str_lower token0 = str_lower (WBNB_ADDRESS cfg)
                                  then reserve0 else reserve1) / 10 ^ 18
        in if bnb_liquidity < MIN_LIQUIDITY cfg then None else Some bnb_liquidity)"
proof (induction k arbitrary: n a)
  case 0
  then obtain m where n: "n = Suc m" by (cases n) auto
  from 0 show ?case unfolding n by (auto simp add: Let_def)
next
  case (Suc k)
  then obtain m where n: "n = Suc m" by (cases n) auto
  from Suc.prems(2) have r: "liquidity_raises (chain a)" by (metis add.right_neutral zero_less_Suc)
  then have step: "liquidity_loop cfg chain (Suc m) a = liquidity_loop cfg chain m (Suc a)"
    by (auto simp add: liquidity_raises_def split: sum.splits)
  have "\<forall>j<k. liquidity_raises (chain (Suc a + j))"
    using Suc.prems(2) by (metis Suc_less_eq add_Suc_shift)
  then have "liquidity_loop cfg chain m (Suc a) =
       (let bnb_liquidity = real (if str_lower token0 = str_lower (WBNB_ADDRESS cfg)
                                  then reserve0 else reserve1) / 10 ^ 18
        in if bnb_liquidity < MIN_LIQUIDITY cfg then None else Some bnb_liquidity)"
    using Suc.IH [of m "Suc a"] Suc.prems n by simp
  with step n show ?case by simp
qed


lemmas screen_run =
  analyze_token_def fetch_token_data_def check_token_liquidity_def get_pair_address_def
  blacklisted_pattern_def BLACKLISTED_PATTERNS_def is_token_blacklisted_def add_to_blacklist_def
  str_lower_def char_lower_def screen_chain_def example_db_def default_config_def
  numeral_3_eq_3 Let_def

text \<open>
  C6. A token with checksum address \<open>addr\<close> that is not blacklisted yet, whose metadata
  is fetched within the three attempts of \<open>fetch_token_data\<close> (the attempts before
  raise), and whose name or symbol, lowered, contains a pattern of
  \<open>BLACKLISTED_PATTERNS\<close>: \<open>analyze_token\<close> returns \<open>None\<close> and the blacklist holds the
  token with its symbol and the reason "Contains blacklisted pattern: " followed by a
  pattern that occurs. Nothing is assumed about the pair, the liquidity, the bytecode or
  the later checks. The database answers.
\<close>

theorem lexical_blacklist:
  assumes conn: "db_conn db"
    and inst: "sv_instance env = Inr u"
    and cs: "sv_checksum env token_address = Inr addr" and idem: "sv_checksum env addr = Inr addr"
    and ne: "addr \<noteq> []"
    and nb: "blacklisted_tokens db addr = None"
    and k: "k < 3" and earlier: "\<forall>j<k. fetch_raises (sv_fetch env j)"
    and fi: "fc_instance (sv_fetch env k) = Inr u'" and fc: "fc_contract (sv_fetch env k)"
    and fm: "fc_metadata (sv_fetch env k) = Inr (name, symbol, decimals, total_supply)"
    and hit: "\<exists>pattern \<in> set BLACKLISTED_PATTERNS.
                py_in pattern (str_lower name) \<or> py_in pattern (str_lower symbol)"
  shows "\<exists>pattern \<in> set BLACKLISTED_PATTERNS.
           (py_in pattern (str_lower name) \<or> py_in pattern (str_lower symbol))
           \<and> analyze_token cfg env db token_address
               = (Inr None,
                  db\<lparr>blacklisted_tokens :=
                       (blacklisted_tokens db)(addr \<mapsto> (symbol, ''Contains blacklisted pattern: '' @ pattern))\<rparr>)"
proof -
  from hit have "blacklisted_pattern name symbol \<noteq> None"
    by (auto simp add: blacklisted_pattern_def find_None_iff)
  then obtain pattern where found: "blacklisted_pattern name symbol = Some pattern"
    by auto
  then have mem: "pattern \<in> set BLACKLISTED_PATTERNS"
    and occ: "py_in pattern (str_lower name) \<or> py_in pattern (str_lower symbol)"
    by (auto simp add: blacklisted_pattern_def find_Some_iff)
  have nbl: "\<not> is_token_blacklisted db addr" using nb by (simp add: is_token_blacklisted_def)
  have "fetch_loop env 3 0 addr db
          = (None, snd (add_to_blacklist db addr symbol (''Contains blacklisted pattern: '' @ pattern)))"
    using fetch_loop_answer [OF idem ne nbl, of k 3 0 name symbol decimals total_supply]
      k earlier fi fc fm found by simp
  then have "analyze_token cfg env db token_address
               = (Inr None,
                  db\<lparr>blacklisted_tokens :=
                       (blacklisted_tokens db)(addr \<mapsto> (symbol, ''Contains blacklisted pattern: '' @ pattern))\<rparr>)"
    using inst cs ne nbl conn by (simp add: analyze_token_def fetch_token_data_def add_to_blacklist_def)
  with mem occ show ?thesis by blast
qed


theorem lexical_blacklist_witness:
  "\<exists>pattern \<in> set BLACKLISTED_PATTERNS.
     (py_in pattern (str_lower ''SafeMoon'') \<or> py_in pattern (str_lower ''SAFEMOON''))
     \<and> analyze_token default_config (screen_chain ''SafeMoon'' ''SAFEMOON'' (10 ^ 20)) example_db
           ''0xToken''
         = (Inr None,
            example_db\<lparr>blacklisted_tokens :=
              (blacklisted_tokens example_db)
                (''0xToken'' \<mapsto> (''SAFEMOON'', ''Contains blacklisted pattern: '' @ pattern))\<rparr>)"
proof (rule lexical_blacklist [where k = 0 and u = "()" and u' = "()" and decimals = 9
          and total_supply = "10 ^ 15"])
  show "\<exists>pattern \<in> set BLACKLISTED_PATTERNS.
          py_in pattern (str_lower ''SafeMoon'') \<or> py_in pattern (str_lower ''SAFEMOON'')"
    by (simp add: BLACKLISTED_PATTERNS_def str_lower_def char_lower_def)
qed (simp_all add: screen_chain_def example_db_def)

text \<open>
  C7, as the claim states it, fails: a token named SafeMoon whose pair holds 1 BNB, below
  the minimum of 5 BNB, is rejected at the lexical check, before its liquidity is read,
  and a blacklist entry is created for it.
\<close>

theorem thin_liquidity_token_blacklisted:
  "check_token_liquidity default_config
       (sv_liquidity (screen_chain ''SafeMoon'' ''SAFEMOON'' (10 ^ 18))) 3 = None
   \<and> blacklisted_tokens example_db ''0xToken'' = None
   \<and> fst (analyze_token default_config (screen_chain ''SafeMoon'' ''SAFEMOON'' (10 ^ 18)) example_db
             ''0xToken'') = Inr None
   \<and> blacklisted_tokens
         (snd (analyze_token default_config (screen_chain ''SafeMoon'' ''SAFEMOON'' (10 ^ 18))
                 example_db ''0xToken'')) ''0xToken''
       = Some (''SAFEMOON'', ''Contains blacklisted pattern: moon'')"
  by (simp add: screen_run)

text \<open>
  C7, amended. A candidate that is not blacklisted, whose metadata passes the lexical
  check and which has a pair: when the reserves are read within the three attempts of
  \<open>check_token_liquidity\<close> and the pooled BNB is strictly below \<open>MIN_LIQUIDITY\<close>, the
  liquidity check returns \<open>None\<close>, \<open>analyze_token\<close> returns \<open>None\<close>, and the database,
  its blacklist included, is as before.
\<close>

theorem thin_liquidity_rejected:
  assumes inst: "sv_instance env = Inr u"
    and cs: "sv_checksum env token_address = Inr addr"
    and ne: "addr \<noteq> []"
    and nb: "\<not> is_token_blacklisted db addr"
    and fetch: "fst (fetch_token_data env db addr 3) = Some data"
    and pair: "get_pair_address (sv_pair env) 3 = Some pair_address" and pne: "pair_address \<noteq> []"
    and k: "k < 3" and earlier: "\<forall>j<k. liquidity_raises (sv_liquidity env j)"
    and li: "lc_instance (sv_liquidity env k) = Inr u'" and lc: "lc_contract (sv_liquidity env k)"
    and lr: "lc_reads (sv_liquidity env k) = Inr (reserve0, reserve1, token0)"
    and thin: "real (if str_lower token0 = str_lower (WBNB_ADDRESS cfg) then reserve0 else reserve1)
                 / 10 ^ 18 < MIN_LIQUIDITY cfg"
  shows "check_token_liquidity cfg (sv_liquidity env) 3 = None
       \<and> analyze_token cfg env db token_address = (Inr None, db)"
proof -
  have liq: "check_token_liquidity cfg (sv_liquidity env) 3 = None"
    using liquidity_loop_answer [of k 3 "sv_liquidity env" 0 reserve0 reserve1 token0 cfg]
      k earlier li lc lr thin by (simp add: check_token_liquidity_def Let_def)
  obtain db' where f: "fetch_token_data env db addr 3 = (Some data, db')"
    using fetch by (cases "fetch_token_data env db addr 3") simp
  then have "db' = db" by (simp add: fetch_token_data_def fetch_loop_db)
  with f liq show ?thesis
    using inst cs ne nb pair pne by (simp add: analyze_token_def)
qed


theorem thin_liquidity_rejected_witness:
  "analyze_token default_config (screen_chain ''Token'' ''TKN'' (10 ^ 18)) example_db ''0xToken''
     = (Inr None, example_db)"
proof -
  have fetch: "fst (fetch_token_data (screen_chain ''Token'' ''TKN'' (10 ^ 18)) example_db ''0xToken'' 3)
                 = Some \<lparr> td_name = ''Token'', td_symbol = ''TKN'', td_decimals = 9,
                          td_total_supply = 10 ^ 15, td_address = ''0xToken'' \<rparr>"
    by (simp add: screen_run)
  have thin: "real (if str_lower ''0xbb4CdB9CBd36B01bD1cBaEBF2De08d9173bc095c''
                       = str_lower (WBNB_ADDRESS default_config) then 10 ^ 18 else 10 ^ 24)
                / 10 ^ 18 < MIN_LIQUIDITY default_config"
    by (simp add: default_config_def)
  show ?thesis
    using thin_liquidity_rejected [OF _ _ _ _ fetch _ _ _ _ _ _ _ thin,
        where token_address = "''0xToken''" and pair_address = "''0xPair''" and k = 0
          and u = "()" and u' = "()"]
    by (simp add: screen_chain_def example_db_def is_token_blacklisted_def
          get_pair_address_def numeral_3_eq_3)
qed

end
